theory Spec2Isabelle
  imports Main
begin

section \<open>Values exchanged with the client\<close>

text \<open>
  Every handler answers with \<^verbatim>\<open>res.status(n).json({...})\<close>. A response is the
  status code together with the JSON value handed to \<^verbatim>\<open>res.json\<close>. Object
  members are kept in the order in which the source writes them. Dates are written as
  numbers (milliseconds). JavaScript strings are modelled as HOL strings and their
  \<^verbatim>\<open>length\<close> as the number of characters.
\<close>

datatype json =
    JNull
  | JBool bool
  | JNum int
  | JStr string
  | JArr "json list"
  | JObj "(string \<times> json) list"

record response =
  res_status :: nat
  res_body :: json

section \<open>middleware/errorHandler.js\<close>

text \<open>
  The errors that travel through \<^verbatim>\<open>next(err)\<close>:
  \<^item> \<open>ApiError statusCode message code\<close>: an instance of the class \<^verbatim>\<open>ApiError\<close>;
  \<^item> \<open>ValidationError errors message\<close>: an error whose \<^verbatim>\<open>name\<close> is
    \<^verbatim>\<open>'ValidationError'\<close> (Mongoose's), with the \<open>(path, message)\<close> pairs of
    \<^verbatim>\<open>Object.values(err.errors)\<close>;
  \<^item> \<open>OtherError message\<close>: any other thrown error, of which the handler reads
    the message only.
\<close>

datatype js_error =
    ApiError nat string string
  | ValidationError "(string \<times> string) list" string
  | OtherError string

text \<open>The constructor's default argument \<^verbatim>\<open>code = 'INTERNAL_ERROR'\<close>.\<close>

definition ApiError2 :: "nat \<Rightarrow> string \<Rightarrow> js_error" where
  "ApiError2 statusCode message = ApiError statusCode message ''INTERNAL_ERROR''"

definition notFoundHandler :: "string \<Rightarrow> js_error" where
  "notFoundHandler originalUrl =
     ApiError 404 (''Route not found: '' @ originalUrl) ''NOT_FOUND''"

text \<open>
  \<open>errorHandler isProduction err\<close>, where \<open>isProduction\<close> is
  \<^verbatim>\<open>process.env.NODE_ENV === 'production'\<close>. The call of the logger, which comes
  first in the source, has no part in the response and is left out.
\<close>

definition errorHandler :: "bool \<Rightarrow> js_error \<Rightarrow> response" where
  "errorHandler isProduction err =
     (case err of
        ApiError statusCode message code \<Rightarrow>
          \<lparr>res_status = statusCode,
           res_body = JObj [(''success'', JBool False),
                            (''error'', JObj [(''message'', JStr message),
                                              (''code'', JStr code)])]\<rparr>
      | ValidationError errors message \<Rightarrow>
          \<lparr>res_status = 400,
           res_body = JObj [(''success'', JBool False),
                            (''error'', JObj [(''message'', JStr ''Validation failed''),
                                              (''code'', JStr ''VALIDATION_ERROR''),
                                              (''details'',
                                                 JArr (map (\<lambda>(path, m).
                                                   JObj [(''field'', JStr path),
                                                         (''message'', JStr m)]) errors))])]\<rparr>
      | OtherError message \<Rightarrow>
          \<lparr>res_status = 500,
           res_body = JObj [(''success'', JBool False),
                            (''error'', JObj [(''message'', JStr
                                                 (if isProduction then ''An unexpected error occurred''
                                                  else if message \<noteq> [] then message
                                                  else ''Internal Server Error'')),
                                              (''code'', JStr ''INTERNAL_ERROR'')])]\<rparr>)"

section \<open>Strings and the validators of express-validator\<close>

text \<open>
  The sanitizer \<^verbatim>\<open>trim()\<close> removes white space at both ends; the validators are
  those the routes use. A validator is a function from the field's value to an optional
  error message: \<open>None\<close> when the value passes.
\<close>

definition is_space :: "char \<Rightarrow> bool" where
  "is_space c \<longleftrightarrow>
     c = CHR '' '' \<or> c = CHR 0x09 \<or> c = CHR 0x0A \<or> c = CHR 0x0B \<or> c = CHR 0x0C \<or> c = CHR 0x0D"

definition trim :: "string \<Rightarrow> string" where
  "trim s = rev (dropWhile is_space (rev (dropWhile is_space s)))"

definition notEmpty :: "string \<Rightarrow> bool" where
  "notEmpty v \<longleftrightarrow> v \<noteq> []"

definition isLength :: "nat \<Rightarrow> nat option \<Rightarrow> string \<Rightarrow> bool" where
  "isLength lo hi v \<longleftrightarrow>
     lo \<le> length v \<and> (case hi of None \<Rightarrow> True | Some m \<Rightarrow> length v \<le> m)"

definition is_hex_digit :: "char \<Rightarrow> bool" where
  "is_hex_digit c \<longleftrightarrow> List.member ''0123456789abcdefABCDEF'' c"

text \<open>\<^verbatim>\<open>isMongoId\<close>: twenty-four hexadecimal digits.\<close>

definition isMongoId :: "string \<Rightarrow> bool" where
  "isMongoId v \<longleftrightarrow> length v = 24 \<and> list_all is_hex_digit v"

definition digit_val :: "char \<Rightarrow> nat option" where
  "digit_val c =
     (if (48::nat) \<le> of_char c \<and> (of_char c :: nat) \<le> 57 then Some (of_char c - 48) else None)"

definition is_digit :: "char \<Rightarrow> bool" where
  "is_digit c \<longleftrightarrow> digit_val c \<noteq> None"

definition digits_val :: "string \<Rightarrow> nat" where
  "digits_val ds = foldl (\<lambda>acc c. 10 * acc + (case digit_val c of Some d \<Rightarrow> d | None \<Rightarrow> 0)) 0 ds"

text \<open>
  JavaScript's \<^verbatim>\<open>parseInt\<close> on a query value: \<open>None\<close> is \<^verbatim>\<open>NaN\<close>
  (also the result for \<^verbatim>\<open>undefined\<close>). White space and a sign may come first, then
  the longest run of decimal digits is read. The hexadecimal prefix is not modelled: the
  route lets only decimal numerals through to \<^verbatim>\<open>parseInt\<close>.
\<close>

definition parseInt :: "string option \<Rightarrow> int option" where
  "parseInt v =
     (case v of
        None \<Rightarrow> None
      | Some s \<Rightarrow>
          (let t = dropWhile is_space s;
               neg = (t \<noteq> [] \<and> hd t = CHR ''-'');
               r = (if t \<noteq> [] \<and> (hd t = CHR ''-'' \<or> hd t = CHR ''+'') then tl t else t);
               ds = takeWhile is_digit r
           in if ds = [] then None
              else Some (if neg then - int (digits_val ds) else int (digits_val ds))))"

text \<open>
  \<^verbatim>\<open>isInt({min, max})\<close>: an optional sign, then \<^verbatim>\<open>0\<close> or a numeral without
  leading zero, within the bounds.
\<close>

definition isInt :: "int option \<Rightarrow> int option \<Rightarrow> string \<Rightarrow> bool" where
  "isInt lo hi v \<longleftrightarrow>
     (let r = (if v \<noteq> [] \<and> (hd v = CHR ''-'' \<or> hd v = CHR ''+'') then tl v else v)
      in r \<noteq> [] \<and> list_all is_digit r \<and> (r = ''0'' \<or> hd r \<noteq> CHR ''0'') \<and>
         (case parseInt (Some v) of
            None \<Rightarrow> False
          | Some n \<Rightarrow> (case lo of None \<Rightarrow> True | Some l \<Rightarrow> l \<le> n) \<and>
                      (case hi of None \<Rightarrow> True | Some h \<Rightarrow> n \<le> h)))"

text \<open>A validator followed by \<^verbatim>\<open>.withMessage(m)\<close>.\<close>

definition must :: "(string \<Rightarrow> bool) \<Rightarrow> string \<Rightarrow> string \<Rightarrow> string option" where
  "must p m v = (if p v then None else Some m)"

section \<open>Documents, the store and the environment\<close>

text \<open>
  \<^verbatim>\<open>models/Item.js\<close>: the schema's three paths, the identifier and the two
  timestamps of \<^verbatim>\<open>timestamps: true\<close>.
\<close>

record item =
  item_id :: string
  title :: string
  content :: string
  user :: "string option"
  createdAt :: nat
  updatedAt :: nat

text \<open>
  Modelled from the spec: the User document of \<^verbatim>\<open>models/User.js\<close>, a file that is
  not among the sources. The spec gives it a unique username of 3 to 30 characters, a
  hashed secret, a role that defaults to \<^verbatim>\<open>"user"\<close>, and timestamps.
\<close>

record user_doc =
  user_id :: string
  username :: string
  password :: string
  role :: string
  user_createdAt :: nat
  user_updatedAt :: nat

record store =
  items :: "item list"
  users :: "user_doc list"

text \<open>The payload \<^verbatim>\<open>{id, username, role}\<close> that a token carries.\<close>

record jwt_payload =
  sub_id :: string
  sub_username :: string
  sub_role :: string

text \<open>
  What a request finds around it: the configuration, the clock, the identifier that the
  database driver gives the next inserted document, whether the database answers
  (\<open>db_fault = Some m\<close>: every call of the store throws an error with message \<open>m\<close>),
  and the library primitives that the code calls: \<^verbatim>\<open>jwt.sign\<close>,
  \<^verbatim>\<open>jwt.verify\<close> (\<open>Inl name\<close>: it throws an error with that \<^verbatim>\<open>name\<close>), the
  password hash and comparison, and the text search of the database.
\<close>

record env =
  production :: bool
  now :: nat
  fresh_oid :: string
  db_fault :: "string option"
  jwt_secret :: string
  jwt_expiresIn :: string
  jwt_sign :: "jwt_payload \<Rightarrow> string \<Rightarrow> string \<Rightarrow> string"
  jwt_verify :: "string \<Rightarrow> string \<Rightarrow> string + jwt_payload"
  hash_password :: "string \<Rightarrow> string"
  compare_password :: "string \<Rightarrow> string \<Rightarrow> bool"
  text_search :: "string \<Rightarrow> item \<Rightarrow> bool"

section \<open>Requests and the outcome of a route\<close>

text \<open>
  The methods for which the routers have routes, and \<^verbatim>\<open>PATCH\<close> for one that
  has none. \<^verbatim>\<open>HEAD\<close> and \<^verbatim>\<open>OPTIONS\<close> requests are not modelled.
\<close>

datatype http_method = GET | POST | PUT | DELETE | PATCH

text \<open>
  \<open>req_path\<close> holds the segments of the URL below the mount point. The last three
  fields are what middleware writes on the request object: the route parameters, the
  identity \<^verbatim>\<open>req.user\<close>, and the \<open>(path, msg)\<close> errors that express-validator
  collects.
\<close>

record request =
  req_method :: http_method
  req_path :: "string list"
  req_originalUrl :: string
  req_query :: "string \<rightharpoonup> string"
  req_body :: "string \<rightharpoonup> string"
  req_authorization :: "string option"
  req_params :: "string \<rightharpoonup> string"
  req_user :: "jwt_payload option"
  req_errors :: "(string \<times> string) list"

text \<open>
  A route ends in one of three ways: it writes the response itself
  (\<^verbatim>\<open>res.json\<close>), it forwards an error with \<^verbatim>\<open>next(err)\<close>, or no route of
  the router matches the request.
\<close>

datatype outcome = Responded response | Forwarded js_error | Unmatched

type_synonym handler = "env \<Rightarrow> store \<Rightarrow> request \<Rightarrow> outcome \<times> store"

section \<open>Validation chains and middleware/validation.js\<close>

text \<open>
  A chain such as \<^verbatim>\<open>body('title').trim().notEmpty().withMessage(m)\<close> is the list
  of its items. Every validator of a chain runs (no chain uses \<^verbatim>\<open>bail()\<close>) and
  each failure adds one error; a sanitizer changes the value seen by the validators after
  it, and the final value is written back on the request. An absent field is
  \<^verbatim>\<open>undefined\<close>, read as the empty string; a chain marked optional is skipped for
  an absent field.
\<close>

datatype chain_item = Optional | Trim | Check "string \<Rightarrow> string option"

datatype location = InBody | InParams | InQuery

definition toString :: "string option \<Rightarrow> string" where
  "toString v = (case v of None \<Rightarrow> [] | Some x \<Rightarrow> x)"

definition truthy :: "string option \<Rightarrow> bool" where
  "truthy v \<longleftrightarrow> (case v of None \<Rightarrow> False | Some x \<Rightarrow> x \<noteq> [])"

definition field_of :: "location \<Rightarrow> request \<Rightarrow> string \<Rightarrow> string option" where
  "field_of loc req f =
     (case loc of InBody \<Rightarrow> req_body req f | InParams \<Rightarrow> req_params req f | InQuery \<Rightarrow> req_query req f)"

definition put_field :: "location \<Rightarrow> string \<Rightarrow> string option \<Rightarrow> request \<Rightarrow> request" where
  "put_field loc f v req =
     (case loc of
        InBody \<Rightarrow> req\<lparr>req_body := (req_body req)(f := v)\<rparr>
      | InParams \<Rightarrow> req\<lparr>req_params := (req_params req)(f := v)\<rparr>
      | InQuery \<Rightarrow> req\<lparr>req_query := (req_query req)(f := v)\<rparr>)"

definition is_optional :: "chain_item list \<Rightarrow> bool" where
  "is_optional cs = list_ex (\<lambda>c. case c of Optional \<Rightarrow> True | _ \<Rightarrow> False) cs"

fun run_items :: "chain_item list \<Rightarrow> string option \<Rightarrow> string option \<times> string list" where
  "run_items [] v = (v, [])"
| "run_items (Optional # cs) v = run_items cs v"
| "run_items (Trim # cs) v = run_items cs (Some (trim (toString v)))"
| "run_items (Check f # cs) v =
     (case f (toString v) of
        None \<Rightarrow> run_items cs v
      | Some m \<Rightarrow> (fst (run_items cs v), m # snd (run_items cs v)))"

definition check :: "location \<Rightarrow> string \<Rightarrow> chain_item list \<Rightarrow> request \<Rightarrow> request" where
  "check loc f cs req =
     (if field_of loc req f = None \<and> is_optional cs then req
      else (put_field loc f (fst (run_items cs (field_of loc req f))) req)
             \<lparr>req_errors := req_errors req @ map (Pair f) (snd (run_items cs (field_of loc req f)))\<rparr>)"

text \<open>
  \<^verbatim>\<open>validateRequest\<close>: \<open>Some res\<close> when it sends the 400 response itself,
  \<open>None\<close> when it calls \<^verbatim>\<open>next()\<close>. \<open>validation_failed\<close> is the object literal
  it sends.
\<close>

definition validation_failed :: "(string \<times> string) list \<Rightarrow> response" where
  "validation_failed errors =
     \<lparr>res_status = 400,
      res_body = JObj [(''success'', JBool False),
                       (''error'', JObj [(''message'', JStr ''Validation failed''),
                                         (''code'', JStr ''VALIDATION_ERROR''),
                                         (''details'',
                                            JArr (map (\<lambda>(path, msg).
                                              JObj [(''field'', JStr path),
                                                    (''message'', JStr msg)]) errors))])]\<rparr>"

definition validateRequest :: "request \<Rightarrow> response option" where
  "validateRequest req =
     (if req_errors req \<noteq> [] then Some (validation_failed (req_errors req)) else None)"

text \<open>
  A route registered as \<^verbatim>\<open>router.METHOD(path, [chain, ..., validateRequest], handler)\<close>:
  the chains run in order, then \<^verbatim>\<open>validateRequest\<close>, then the handler.
\<close>

definition validated ::
  "(env \<Rightarrow> store \<Rightarrow> request \<Rightarrow> request) list \<Rightarrow> handler \<Rightarrow> handler" where
  "validated checks h env s req =
     (case validateRequest (foldl (\<lambda>r c. c env s r) req checks) of
        Some res \<Rightarrow> (Responded res, s)
      | None \<Rightarrow> h env s (foldl (\<lambda>r c. c env s r) req checks))"

section \<open>middleware/auth.js\<close>

definition generateToken :: "env \<Rightarrow> jwt_payload \<Rightarrow> string" where
  "generateToken env payload = jwt_sign env payload (jwt_secret env) (jwt_expiresIn env)"

text \<open>\<^verbatim>\<open>authHeader.split(' ')\<close>.\<close>

fun split_on :: "char \<Rightarrow> string \<Rightarrow> string list" where
  "split_on c [] = [[]]"
| "split_on c (x # xs) =
     (if x = c then [] # split_on c xs
      else (case split_on c xs of [] \<Rightarrow> [[x]] | p # ps \<Rightarrow> (x # p) # ps))"

text \<open>
  \<open>Inr req'\<close>: the decoded payload is stored in \<^verbatim>\<open>req.user\<close> and \<^verbatim>\<open>next()\<close>
  is called. \<open>Inl err\<close>: \<^verbatim>\<open>next(err)\<close>.
\<close>

definition authenticateJWT :: "env \<Rightarrow> request \<Rightarrow> js_error + request" where
  "authenticateJWT env req =
     (if \<not> truthy (req_authorization req)
      then Inl (ApiError 401 ''Authentication required'' ''AUTH_REQUIRED'')
      else
        (let parts = split_on CHR '' '' (toString (req_authorization req)) in
         if length parts \<noteq> 2 \<or> parts ! 0 \<noteq> ''Bearer''
         then Inl (ApiError 401 ''Invalid authorization format. Use: Bearer <token>''
                     ''INVALID_AUTH_FORMAT'')
         else
           (case jwt_verify env (parts ! 1) (jwt_secret env) of
              Inr decoded \<Rightarrow> Inr (req\<lparr>req_user := Some decoded\<rparr>)
            | Inl name \<Rightarrow>
                if name = ''TokenExpiredError''
                then Inl (ApiError 401 ''Token has expired'' ''TOKEN_EXPIRED'')
                else Inl (ApiError 401 ''Invalid token'' ''INVALID_TOKEN''))))"

definition authorize :: "string list \<Rightarrow> request \<Rightarrow> js_error + request" where
  "authorize roles req =
     (case req_user req of
        None \<Rightarrow> Inl (ApiError 401 ''User not authenticated'' ''AUTH_REQUIRED'')
      | Some u \<Rightarrow>
          if \<not> List.member roles (sub_role u)
          then Inl (ApiError 403 ''Insufficient permissions'' ''INSUFFICIENT_PERMISSIONS'')
          else Inr req)"

section \<open>models/Item.js and the store operations the routes call\<close>

text \<open>
  Each operation throws when the database does not answer. The schema's setters trim
  title and content, and its validators ask for a non-empty title of at most 100
  characters and a non-empty content. An identifier that is not an ObjectId cannot be
  cast; an inserted identifier must be new.
\<close>

definition title_errors :: "string option \<Rightarrow> (string \<times> string) list" where
  "title_errors t =
     (if \<not> truthy t then [(''title'', ''Title is required'')]
      else if 100 < length (toString t) then [(''title'', ''Title cannot exceed 100 characters'')]
      else [])"

definition content_errors :: "string option \<Rightarrow> (string \<times> string) list" where
  "content_errors c = (if \<not> truthy c then [(''content'', ''Content is required'')] else [])"

definition Item_create ::
  "env \<Rightarrow> store \<Rightarrow> string option \<Rightarrow> string option \<Rightarrow> string option \<Rightarrow> js_error + (item \<times> store)" where
  "Item_create env s t c owner =
     (let t' = map_option trim t; c' = map_option trim c in
      if title_errors t' @ content_errors c' \<noteq> []
      then Inl (ValidationError (title_errors t' @ content_errors c') ''Item validation failed'')
      else
        (case db_fault env of
           Some m \<Rightarrow> Inl (OtherError m)
         | None \<Rightarrow>
             if list_ex (\<lambda>i. item_id i = fresh_oid env) (items s)
             then Inl (OtherError ''E11000 duplicate key error'')
             else
               (let doc = \<lparr>item_id = fresh_oid env, title = toString t', content = toString c',
                           user = owner, createdAt = now env, updatedAt = now env\<rparr>
                in Inr (doc, s\<lparr>items := items s @ [doc]\<rparr>))))"

text \<open>
  \<^verbatim>\<open>Item.find(query)\<close> and \<^verbatim>\<open>Item.countDocuments(query)\<close>; the query is
  \<^verbatim>\<open>{}\<close> (\<open>None\<close>) or a text search (\<open>Some q\<close>).
\<close>

definition Item_find :: "env \<Rightarrow> store \<Rightarrow> string option \<Rightarrow> js_error + item list" where
  "Item_find env s query =
     (case db_fault env of
        Some m \<Rightarrow> Inl (OtherError m)
      | None \<Rightarrow>
          Inr (case query of None \<Rightarrow> items s | Some q \<Rightarrow> filter (text_search env q) (items s)))"

definition Item_countDocuments :: "env \<Rightarrow> store \<Rightarrow> string option \<Rightarrow> js_error + nat" where
  "Item_countDocuments env s query =
     (case Item_find env s query of Inl e \<Rightarrow> Inl e | Inr found \<Rightarrow> Inr (length found))"

text \<open>\<^verbatim>\<open>.sort({ createdAt: -1 })\<close>.\<close>

definition newest_first :: "item list \<Rightarrow> item list" where
  "newest_first xs = rev (sort_key createdAt xs)"

definition Item_findById :: "env \<Rightarrow> store \<Rightarrow> string \<Rightarrow> js_error + item option" where
  "Item_findById env s i =
     (if \<not> isMongoId i then Inl (OtherError ''Cast to ObjectId failed'')
      else
        (case db_fault env of
           Some m \<Rightarrow> Inl (OtherError m)
         | None \<Rightarrow> Inr (find (\<lambda>d. item_id d = i) (items s))))"

fun update_first :: "('a \<Rightarrow> bool) \<Rightarrow> ('a \<Rightarrow> 'a) \<Rightarrow> 'a list \<Rightarrow> 'a list" where
  "update_first P f [] = []"
| "update_first P f (x # xs) = (if P x then f x # xs else x # update_first P f xs)"

fun remove_first :: "('a \<Rightarrow> bool) \<Rightarrow> 'a list \<Rightarrow> 'a list" where
  "remove_first P [] = []"
| "remove_first P (x # xs) = (if P x then xs else x # remove_first P xs)"

text \<open>
  \<^verbatim>\<open>Item.findByIdAndUpdate(id, { $set: updates }, { new: true, runValidators: true })\<close>:
  \<open>t\<close> and \<open>c\<close> are the members of \<^verbatim>\<open>updates\<close> (\<open>None\<close>: not set). The
  validators run on the paths that are set, and \<^verbatim>\<open>timestamps\<close> sets
  \<^verbatim>\<open>updatedAt\<close> on every update.
\<close>

definition apply_updates :: "env \<Rightarrow> string option \<Rightarrow> string option \<Rightarrow> item \<Rightarrow> item" where
  "apply_updates env t c d =
     d\<lparr>title := (case t of None \<Rightarrow> title d | Some x \<Rightarrow> x),
       content := (case c of None \<Rightarrow> content d | Some x \<Rightarrow> x),
       updatedAt := now env\<rparr>"

definition Item_findByIdAndUpdate ::
  "env \<Rightarrow> store \<Rightarrow> string \<Rightarrow> string option \<Rightarrow> string option \<Rightarrow> js_error + (item option \<times> store)" where
  "Item_findByIdAndUpdate env s i t c =
     (let t' = map_option trim t; c' = map_option trim c;
          errs = (if t' = None then [] else title_errors t') @
                 (if c' = None then [] else content_errors c')
      in
      if \<not> isMongoId i then Inl (OtherError ''Cast to ObjectId failed'')
      else if errs \<noteq> [] then Inl (ValidationError errs ''Validation failed'')
      else
        (case db_fault env of
           Some m \<Rightarrow> Inl (OtherError m)
         | None \<Rightarrow>
             Inr (map_option (apply_updates env t' c') (find (\<lambda>d. item_id d = i) (items s)),
                  s\<lparr>items := update_first (\<lambda>d. item_id d = i) (apply_updates env t' c') (items s)\<rparr>)))"

definition Item_findByIdAndDelete ::
  "env \<Rightarrow> store \<Rightarrow> string \<Rightarrow> js_error + (item option \<times> store)" where
  "Item_findByIdAndDelete env s i =
     (if \<not> isMongoId i then Inl (OtherError ''Cast to ObjectId failed'')
      else
        (case db_fault env of
           Some m \<Rightarrow> Inl (OtherError m)
         | None \<Rightarrow>
             Inr (find (\<lambda>d. item_id d = i) (items s),
                  s\<lparr>items := remove_first (\<lambda>d. item_id d = i) (items s)\<rparr>)))"

text \<open>The document as \<^verbatim>\<open>res.json\<close> writes it; an absent owner has no member.\<close>

definition item_json :: "item \<Rightarrow> json" where
  "item_json d =
     JObj ([(''_id'', JStr (item_id d)), (''title'', JStr (title d)), (''content'', JStr (content d))] @
           (case user d of None \<Rightarrow> [] | Some u \<Rightarrow> [(''user'', JStr u)]) @
           [(''createdAt'', JNum (int (createdAt d))), (''updatedAt'', JNum (int (updatedAt d)))])"

section \<open>routes/item.routes.js\<close>

text \<open>
  One definition for each \<^verbatim>\<open>router.METHOD\<close> call of the file, in its order. A
  \<^verbatim>\<open>catch\<close> block replaces whatever the store threw by an \<^verbatim>\<open>ApiError\<close> with
  status 500.
\<close>

definition get_items :: handler where
  "get_items env s req =
     (case Item_find env s None of
        Inl e \<Rightarrow> (Forwarded (ApiError2 500 ''Error retrieving items''), s)
      | Inr found \<Rightarrow>
          (Responded \<lparr>res_status = 200,
                      res_body = JObj [(''success'', JBool True),
                                       (''items'', JArr (map item_json (newest_first found)))]\<rparr>, s))"

definition get_item :: handler where
  "get_item =
     validated [\<lambda>env s. check InParams ''id'' [Check (must isMongoId ''Invalid item ID'')]]
       (\<lambda>env s req.
          case Item_findById env s (toString (req_params req ''id'')) of
            Inl e \<Rightarrow> (Forwarded (ApiError2 500 ''Error retrieving item''), s)
          | Inr None \<Rightarrow>
              (Forwarded (ApiError 404
                 (''Item with ID '' @ toString (req_params req ''id'') @ '' not found'')
                 ''ITEM_NOT_FOUND''), s)
          | Inr (Some d) \<Rightarrow>
              (Responded \<lparr>res_status = 200,
                          res_body = JObj [(''success'', JBool True), (''item'', item_json d)]\<rparr>, s))"

definition post_item :: handler where
  "post_item =
     validated
       [\<lambda>env s. check InBody ''title''
                  [Trim, Check (must notEmpty ''Title is required''),
                   Check (must (isLength 0 (Some 100)) ''Title cannot exceed 100 characters'')],
        \<lambda>env s. check InBody ''content'' [Trim, Check (must notEmpty ''Content is required'')]]
       (\<lambda>env s req.
          case Item_create env s (req_body req ''title'') (req_body req ''content'')
                 (map_option sub_id (req_user req)) of
            Inl e \<Rightarrow> (Forwarded (ApiError2 500 ''Error creating item''), s)
          | Inr (newItem, s') \<Rightarrow>
              (Responded \<lparr>res_status = 201,
                          res_body = JObj [(''success'', JBool True),
                                           (''message'', JStr ''Item created successfully''),
                                           (''item'', item_json newItem)]\<rparr>, s'))"

definition put_item :: handler where
  "put_item =
     validated
       [\<lambda>env s. check InParams ''id'' [Check (must isMongoId ''Invalid item ID'')],
        \<lambda>env s. check InBody ''title''
                  [Optional, Trim, Check (must notEmpty ''Title cannot be empty''),
                   Check (must (isLength 0 (Some 100)) ''Title cannot exceed 100 characters'')],
        \<lambda>env s. check InBody ''content''
                  [Optional, Trim, Check (must notEmpty ''Content cannot be empty'')]]
       (\<lambda>env s req.
          case Item_findByIdAndUpdate env s (toString (req_params req ''id''))
                 (if truthy (req_body req ''title'') then req_body req ''title'' else None)
                 (if truthy (req_body req ''content'') then req_body req ''content'' else None) of
            Inl e \<Rightarrow> (Forwarded (ApiError2 500 ''Error updating item''), s)
          | Inr (None, s') \<Rightarrow>
              (Forwarded (ApiError 404
                 (''Item with ID '' @ toString (req_params req ''id'') @ '' not found'')
                 ''ITEM_NOT_FOUND''), s')
          | Inr (Some d, s') \<Rightarrow>
              (Responded \<lparr>res_status = 200,
                          res_body = JObj [(''success'', JBool True),
                                           (''message'', JStr ''Item updated successfully''),
                                           (''item'', item_json d)]\<rparr>, s'))"

definition delete_item :: handler where
  "delete_item =
     validated [\<lambda>env s. check InParams ''id'' [Check (must isMongoId ''Invalid item ID'')]]
       (\<lambda>env s req.
          case Item_findByIdAndDelete env s (toString (req_params req ''id'')) of
            Inl e \<Rightarrow> (Forwarded (ApiError2 500 ''Error deleting item''), s)
          | Inr (None, s') \<Rightarrow>
              (Forwarded (ApiError 404
                 (''Item with ID '' @ toString (req_params req ''id'') @ '' not found'')
                 ''ITEM_NOT_FOUND''), s')
          | Inr (Some d, s') \<Rightarrow>
              (Responded \<lparr>res_status = 200,
                          res_body = JObj [(''success'', JBool True),
                                           (''message'', JStr (''Item with ID '' @
                                              toString (req_params req ''id'') @
                                              '' deleted successfully''))]\<rparr>, s'))"

text \<open>\<^verbatim>\<open>parseInt(x) || d\<close> and \<^verbatim>\<open>Math.ceil(total / limit)\<close>.\<close>

definition int_or :: "int option \<Rightarrow> int \<Rightarrow> int" where
  "int_or v d = (case v of None \<Rightarrow> d | Some n \<Rightarrow> if n = 0 then d else n)"

definition ceil_div :: "int \<Rightarrow> int \<Rightarrow> int" where
  "ceil_div a b = - ((- a) div b)"

text \<open>
  The handler of \<^verbatim>\<open>/search\<close>. \<open>page\<close> and \<open>limit\<close> are at least 1 once the
  chains have passed, so \<^verbatim>\<open>skip\<close> and \<^verbatim>\<open>limit\<close> are natural numbers.
\<close>

definition search_handler :: handler where
  "search_handler env s req =
     (let page = int_or (parseInt (req_query req ''page'')) 1;
          limit = int_or (parseInt (req_query req ''limit'')) 10;
          skip = (page - 1) * limit;
          query = (if truthy (req_query req ''q'') then req_query req ''q'' else None)
      in
      case Item_find env s query of
        Inl e \<Rightarrow> (Forwarded (ApiError2 500 ''Error searching items''), s)
      | Inr found \<Rightarrow>
          (case Item_countDocuments env s query of
             Inl e \<Rightarrow> (Forwarded (ApiError2 500 ''Error searching items''), s)
           | Inr count \<Rightarrow>
               (Responded
                  \<lparr>res_status = 200,
                   res_body =
                     JObj [(''success'', JBool True),
                           (''results'',
                              JArr (map item_json
                                (take (nat limit) (drop (nat skip) (newest_first found))))),
                           (''pagination'',
                              JObj [(''total'', JNum (int count)),
                                    (''page'', JNum page),
                                    (''limit'', JNum limit),
                                    (''pages'', JNum (ceil_div (int count) limit)),
                                    (''hasNextPage'', JBool (page < ceil_div (int count) limit)),
                                    (''hasPrevPage'', JBool (page > 1))])]\<rparr>, s)))"

definition search_items :: handler where
  "search_items =
     validated
       [\<lambda>env s. check InQuery ''q'' [Optional, Check (must (\<lambda>v. True) ''Invalid value'')],
        \<lambda>env s. check InQuery ''page''
                  [Optional, Check (must (isInt (Some 1) None) ''Page must be a positive integer'')],
        \<lambda>env s. check InQuery ''limit''
                  [Optional, Check (must (isInt (Some 1) (Some 50)) ''Limit must be between 1 and 50'')]]
       search_handler"

section \<open>Routers\<close>

text \<open>
  A router tries its routes in the order of their registration. The first route whose
  method and path pattern match runs; none of the routes of this program hands the
  request on to a later route (each ends with a response or with \<^verbatim>\<open>next(err)\<close>).
  The patterns are \<^verbatim>\<open>'/'\<close>, \<^verbatim>\<open>'/:name'\<close> and a literal segment such as
  \<^verbatim>\<open>'/search'\<close>.
\<close>

datatype pattern = Root | Param string | Lit string

fun match_path :: "pattern \<Rightarrow> string list \<Rightarrow> (string \<rightharpoonup> string) option" where
  "match_path Root [] = Some Map.empty"
| "match_path (Param n) [v] = Some [n \<mapsto> v]"
| "match_path (Lit l) [v] = (if v = l then Some Map.empty else None)"
| "match_path _ _ = None"

fun dispatch :: "(http_method \<times> pattern \<times> handler) list \<Rightarrow> handler" where
  "dispatch [] env s req = (Unmatched, s)"
| "dispatch ((m, p, h) # rs) env s req =
     (if m = req_method req
      then (case match_path p (req_path req) of
              Some ps \<Rightarrow> h env s (req\<lparr>req_params := ps\<rparr>)
            | None \<Rightarrow> dispatch rs env s req)
      else dispatch rs env s req)"

definition itemRoutes :: handler where
  "itemRoutes =
     dispatch [(GET, Root, get_items),
               (GET, Param ''id'', get_item),
               (POST, Root, post_item),
               (PUT, Param ''id'', put_item),
               (DELETE, Param ''id'', delete_item),
               (GET, Lit ''search'', search_items)]"

section \<open>The User model\<close>

text \<open>
  Modelled from the spec: the operations of \<^verbatim>\<open>models/User.js\<close> that the
  authentication routes call; the file is not among the sources. From the spec: the
  username is required, has 3 to 30 characters and is unique, which is enforced when the
  document is written; the secret is stored hashed; the role defaults to
  \<^verbatim>\<open>"user"\<close>; the document has creation and update timestamps.
  \<^verbatim>\<open>comparePassword\<close> is the comparison primitive of the environment applied to
  the candidate and the stored hash.
\<close>

definition User_findOne :: "env \<Rightarrow> store \<Rightarrow> string \<Rightarrow> js_error + user_doc option" where
  "User_findOne env s name =
     (case db_fault env of
        Some m \<Rightarrow> Inl (OtherError m)
      | None \<Rightarrow> Inr (find (\<lambda>u. username u = name) (users s)))"

definition User_findById :: "env \<Rightarrow> store \<Rightarrow> string \<Rightarrow> js_error + user_doc option" where
  "User_findById env s i =
     (if \<not> isMongoId i then Inl (OtherError ''Cast to ObjectId failed'')
      else
        (case db_fault env of
           Some m \<Rightarrow> Inl (OtherError m)
         | None \<Rightarrow> Inr (find (\<lambda>u. user_id u = i) (users s))))"

definition User_create ::
  "env \<Rightarrow> store \<Rightarrow> string option \<Rightarrow> string option \<Rightarrow> js_error + (user_doc \<times> store)" where
  "User_create env s name pw =
     (if \<not> isLength 3 (Some 30) (toString name)
      then Inl (ValidationError [(''username'', ''Username must be between 3 and 30 characters'')]
                  ''User validation failed'')
      else
        (case db_fault env of
           Some m \<Rightarrow> Inl (OtherError m)
         | None \<Rightarrow>
             if list_ex (\<lambda>u. username u = toString name \<or> user_id u = fresh_oid env) (users s)
             then Inl (OtherError ''E11000 duplicate key error'')
             else
               (let doc = \<lparr>user_id = fresh_oid env, username = toString name,
                           password = hash_password env (toString pw), role = ''user'',
                           user_createdAt = now env, user_updatedAt = now env\<rparr>
                in Inr (doc, s\<lparr>users := users s @ [doc]\<rparr>))))"

definition comparePassword :: "env \<Rightarrow> user_doc \<Rightarrow> string \<Rightarrow> bool" where
  "comparePassword env u candidate = compare_password env candidate (password u)"

section \<open>routes/auth.routes.js\<close>

text \<open>
  The custom validator of the registration route: it throws when a user with the value
  as username exists. A validator that throws marks the field invalid with the thrown
  error's message, which is also what happens when the lookup itself fails.
\<close>

definition error_message :: "js_error \<Rightarrow> string" where
  "error_message e =
     (case e of ApiError sc m c \<Rightarrow> m | ValidationError es m \<Rightarrow> m | OtherError m \<Rightarrow> m)"

definition username_free :: "env \<Rightarrow> store \<Rightarrow> string \<Rightarrow> string option" where
  "username_free env s v =
     (case User_findOne env s v of
        Inl e \<Rightarrow> Some (error_message e)
      | Inr (Some existingUser) \<Rightarrow> Some ''Username already exists''
      | Inr None \<Rightarrow> None)"

definition register :: handler where
  "register =
     validated
       [\<lambda>env s. check InBody ''username''
                  [Trim, Check (must notEmpty ''Username is required''),
                   Check (must (isLength 3 (Some 30)) ''Username must be between 3 and 30 characters''),
                   Check (username_free env s)],
        \<lambda>env s. check InBody ''password''
                  [Trim, Check (must notEmpty ''Password is required''),
                   Check (must (isLength 6 None) ''Password must be at least 6 characters'')]]
       (\<lambda>env s req.
          case User_create env s (req_body req ''username'') (req_body req ''password'') of
            Inl e \<Rightarrow> (Forwarded (ApiError2 500 ''Error registering user''), s)
          | Inr (u, s') \<Rightarrow>
              (Responded \<lparr>res_status = 201,
                          res_body = JObj [(''success'', JBool True),
                                           (''message'', JStr ''User registered successfully''),
                                           (''user'', JObj [(''id'', JStr (user_id u)),
                                                            (''username'', JStr (username u)),
                                                            (''role'', JStr (role u)),
                                                            (''createdAt'', JNum (int (user_createdAt u)))])]\<rparr>,
               s'))"

definition login :: handler where
  "login =
     validated
       [\<lambda>env s. check InBody ''username'' [Trim, Check (must notEmpty ''Username is required'')],
        \<lambda>env s. check InBody ''password'' [Trim, Check (must notEmpty ''Password is required'')]]
       (\<lambda>env s req.
          case User_findOne env s (toString (req_body req ''username'')) of
            Inl e \<Rightarrow> (Forwarded (ApiError2 500 ''Error during login''), s)
          | Inr None \<Rightarrow>
              (Forwarded (ApiError 401 ''Invalid username or password'' ''INVALID_CREDENTIALS''), s)
          | Inr (Some u) \<Rightarrow>
              if \<not> comparePassword env u (toString (req_body req ''password''))
              then (Forwarded (ApiError 401 ''Invalid username or password'' ''INVALID_CREDENTIALS''), s)
              else
                (Responded
                   \<lparr>res_status = 200,
                    res_body =
                      JObj [(''success'', JBool True),
                            (''message'', JStr ''Login successful''),
                            (''token'', JStr (generateToken env
                               \<lparr>sub_id = user_id u, sub_username = username u, sub_role = role u\<rparr>)),
                            (''user'', JObj [(''id'', JStr (user_id u)),
                                             (''username'', JStr (username u)),
                                             (''role'', JStr (role u))])]\<rparr>, s))"

text \<open>
  \<^verbatim>\<open>router.get('/me', authenticateJWT, handler)\<close>. Reading \<^verbatim>\<open>req.user.id\<close>
  without an identity would throw inside the \<^verbatim>\<open>try\<close> block.
\<close>

definition me :: handler where
  "me env s req =
     (case authenticateJWT env req of
        Inl err \<Rightarrow> (Forwarded err, s)
      | Inr req' \<Rightarrow>
          (case req_user req' of
             None \<Rightarrow> (Forwarded (ApiError2 500 ''Error retrieving user profile''), s)
           | Some decoded \<Rightarrow>
               (case User_findById env s (sub_id decoded) of
                  Inl e \<Rightarrow> (Forwarded (ApiError2 500 ''Error retrieving user profile''), s)
                | Inr None \<Rightarrow> (Forwarded (ApiError 404 ''User not found'' ''USER_NOT_FOUND''), s)
                | Inr (Some u) \<Rightarrow>
                    (Responded
                       \<lparr>res_status = 200,
                        res_body =
                          JObj [(''success'', JBool True),
                                (''user'', JObj [(''id'', JStr (user_id u)),
                                                 (''username'', JStr (username u)),
                                                 (''role'', JStr (role u)),
                                                 (''createdAt'', JNum (int (user_createdAt u)))])]\<rparr>,
                     s))))"

definition authRoutes :: handler where
  "authRoutes =
     dispatch [(POST, Lit ''register'', register),
               (POST, Lit ''login'', login),
               (GET, Lit ''me'', me)]"

section \<open>routes/index.js and the application\<close>

text \<open>
  \<^verbatim>\<open>router.use('/items', itemRoutes)\<close> and \<^verbatim>\<open>router.use('/auth', authRoutes)\<close>:
  a mounted router sees the path below its mount point. The third router, of the status
  and demonstration routes, is not modelled; \<open>elsewhere\<close> tells the requests that it
  or the documentation routes of the server answer.
\<close>

definition routes :: handler where
  "routes env s req =
     (case req_path req of
        [] \<Rightarrow> (Unmatched, s)
      | seg # rest \<Rightarrow>
          if seg = ''items'' then itemRoutes env s (req\<lparr>req_path := rest\<rparr>)
          else if seg = ''auth'' then authRoutes env s (req\<lparr>req_path := rest\<rparr>)
          else (Unmatched, s))"

definition elsewhere :: "request \<Rightarrow> bool" where
  "elsewhere req \<longleftrightarrow>
     (case req_path req of
        [] \<Rightarrow> True
      | seg # rest \<Rightarrow>
          seg = ''docs'' \<or>
          (rest = [] \<and>
           ((req_method req = GET \<and> List.member [''status'', ''data'', ''random'', ''search'', ''docs.json''] seg) \<or>
            (req_method req = POST \<and> seg = ''echo''))))"

text \<open>
  The application for a request below \<^verbatim>\<open>/api\<close>, whose \<open>req_path\<close> holds the
  segments after \<^verbatim>\<open>/api\<close>. A request arrives without route parameters, identity
  or validation errors. \<^verbatim>\<open>app.use('/api', routes)\<close> comes first, then
  \<^verbatim>\<open>app.use('/api/*', notFoundHandler)\<close>, and \<^verbatim>\<open>app.use(errorHandler)\<close>
  receives every forwarded error. The result is \<open>None\<close> for a request that a part of
  the server outside this model answers.
\<close>

definition incoming :: "request \<Rightarrow> request" where
  "incoming req = req\<lparr>req_params := Map.empty, req_user := None, req_errors := []\<rparr>"

definition app :: "env \<Rightarrow> store \<Rightarrow> request \<Rightarrow> response option \<times> store" where
  "app env s req =
     (case routes env s (incoming req) of
        (Responded res, s') \<Rightarrow> (Some res, s')
      | (Forwarded err, s') \<Rightarrow> (Some (errorHandler (production env) err), s')
      | (Unmatched, s') \<Rightarrow>
          if elsewhere req then (None, s')
          else (Some (errorHandler (production env) (notFoundHandler (req_originalUrl req))), s'))"

section \<open>Sample data\<close>

text \<open>
  A concrete environment, store and requests, on which the theorems below are
  instantiated. The stand-ins for the library primitives are arbitrary: the sample
  verifier knows one expired and one valid token.
\<close>

definition sample_env :: env where
  "sample_env =
     \<lparr>production = False, now = 1000, fresh_oid = ''64b7f0c2a1d3e4f5a6b7c8d9'',
      db_fault = None, jwt_secret = ''k'', jwt_expiresIn = ''24h'',
      jwt_sign = (\<lambda>p k e. ''signed:'' @ sub_username p),
      jwt_verify = (\<lambda>t k. if t = ''old'' then Inl ''TokenExpiredError''
                           else if t = ''good'' then Inr \<lparr>sub_id = ''64b7f0c2a1d3e4f5a6b7c8aa'',
                                                         sub_username = ''ann'', sub_role = ''user''\<rparr>
                           else Inl ''JsonWebTokenError''),
      hash_password = (\<lambda>p. ''#'' @ p),
      compare_password = (\<lambda>c h. h = ''#'' @ c),
      text_search = (\<lambda>q d. True)\<rparr>"

definition sample_item :: item where
  "sample_item =
     \<lparr>item_id = ''64b7f0c2a1d3e4f5a6b7c800'', title = ''first'', content = ''text'',
      user = Some ''64b7f0c2a1d3e4f5a6b7c8aa'', createdAt = 10, updatedAt = 10\<rparr>"

definition sample_user :: user_doc where
  "sample_user =
     \<lparr>user_id = ''64b7f0c2a1d3e4f5a6b7c8aa'', username = ''ann'', password = ''#secret1'',
      role = ''user'', user_createdAt = 5, user_updatedAt = 5\<rparr>"

definition sample_store :: store where
  "sample_store = \<lparr>items = [sample_item], users = [sample_user]\<rparr>"

definition sample_request :: "http_method \<Rightarrow> string list \<Rightarrow> (string \<times> string) list \<Rightarrow> request" where
  "sample_request m p b =
     \<lparr>req_method = m, req_path = p, req_originalUrl = ''/api'', req_query = Map.empty,
      req_body = map_of b, req_authorization = Some ''Bearer good'',
      req_params = Map.empty, req_user = None, req_errors = []\<rparr>"

text \<open>\<^verbatim>\<open>GET /api/items/search?page=2&limit=10\<close>.\<close>

definition search_page2 :: request where
  "search_page2 =
     \<lparr>req_method = GET, req_path = [''items'', ''search''],
      req_originalUrl = ''/api/items/search?page=2&limit=10'',
      req_query = [''page'' \<mapsto> ''2'', ''limit'' \<mapsto> ''10''],
      req_body = Map.empty, req_authorization = None,
      req_params = Map.empty, req_user = None, req_errors = []\<rparr>"


definition padded_create :: request where
  "padded_create = sample_request POST [''items''] [(''title'', '' T''), (''content'', ''C'')]"


text \<open>\<^verbatim>\<open>PUT /api/items/:id\<close> for the stored sample item, with an empty body.\<close>

definition empty_update :: request where
  "empty_update = sample_request PUT [''items'', ''64b7f0c2a1d3e4f5a6b7c800''] []"

text \<open>
  \<^verbatim>\<open>GET /api/auth/me\<close> with a given bearer token, and two login requests: a wrong
  password for the stored user, and a username that nobody has.
\<close>

definition me_with :: "string \<Rightarrow> request" where
  "me_with token =
     (sample_request GET [''auth'', ''me''] [])\<lparr>req_authorization := Some (''Bearer '' @ token)\<rparr>"






section \<open>Abbreviations used in the statements\<close>

text \<open>
  The errors that the two chains of \<^verbatim>\<open>POST /api/items\<close> collect on a request,
  and the document that the route stores when there are none.
\<close>

definition create_errors :: "request \<Rightarrow> (string \<times> string) list" where
  "create_errors req =
     (if trim (toString (req_body req ''title'')) = [] then [(''title'', ''Title is required'')] else []) @
     (if 100 < length (trim (toString (req_body req ''title'')))
      then [(''title'', ''Title cannot exceed 100 characters'')] else []) @
     (if trim (toString (req_body req ''content'')) = [] then [(''content'', ''Content is required'')] else [])"

definition created_item :: "env \<Rightarrow> request \<Rightarrow> item" where
  "created_item env req =
     \<lparr>item_id = fresh_oid env, title = trim (toString (req_body req ''title'')),
      content = trim (toString (req_body req ''content'')), user = None,
      createdAt = now env, updatedAt = now env\<rparr>"




section \<open>Facts about the helper functions\<close>

lemmas chain_defs = validated_def check_def validateRequest_def field_of_def put_field_def
  is_optional_def must_def

lemma dropWhile_rev_dropWhile:
  "dropWhile P (rev (dropWhile P (rev (dropWhile P s)))) = rev (dropWhile P (rev (dropWhile P s)))"
proof (cases "dropWhile P (rev (dropWhile P s)) = []")
  case True
  show ?thesis unfolding True by simp
next
  case False
  define a where "a = dropWhile P s"
  define b where "b = dropWhile P (rev a)"
  have b: "b \<noteq> []" using False by (simp add: a_def b_def)
  have "rev a = takeWhile P (rev a) @ b" by (simp add: b_def)
  then have a: "a = rev b @ rev (takeWhile P (rev a))"
    by (metis rev_append rev_rev_ident)
  have "a \<noteq> []" using a b by auto
  then have "\<not> P (hd a)" unfolding a_def by (simp add: hd_dropWhile)
  moreover have "hd a = hd (rev b)" using a b by (metis hd_append2 rev_is_Nil_conv)
  ultimately have "dropWhile P (rev b) = rev b"
    using b by (cases "rev b") auto
  then show ?thesis by (simp add: a_def b_def)
qed

lemma trim_trim: "trim (trim s) = trim s"
  by (simp add: trim_def dropWhile_rev_dropWhile)

section \<open>Creating an item\<close>

text \<open>What the application answers to \<^verbatim>\<open>POST /api/items\<close>, case by case.\<close>

lemma app_post_item:
  assumes "req_method req = POST" "req_path req = [''items'']"
  shows "app env s req =
     (if create_errors req \<noteq> [] then (Some (validation_failed (create_errors req)), s)
      else if db_fault env \<noteq> None \<or> list_ex (\<lambda>i. item_id i = fresh_oid env) (items s)
      then (Some (errorHandler (production env) (ApiError2 500 ''Error creating item'')), s)
      else (Some \<lparr>res_status = 201,
                   res_body = JObj [(''success'', JBool True),
                                    (''message'', JStr ''Item created successfully''),
                                    (''item'', item_json (created_item env req))]\<rparr>,
            s\<lparr>items := items s @ [created_item env req]\<rparr>))"
  using assms
  apply (simp add: app_def routes_def incoming_def itemRoutes_def post_item_def chain_defs
      create_errors_def created_item_def notEmpty_def isLength_def Item_create_def
      title_errors_def content_errors_def truthy_def trim_trim toString_def
      split: option.splits)
  apply (auto simp: trim_trim toString_def Let_def split: option.splits)
  done


lemma find_update_first:
  "(\<And>x. P (f x) = P x) \<Longrightarrow> find P (update_first P f xs) = map_option f (find P xs)"
  by (induction xs) auto









text \<open>
  Claim C9. Whatever a \<^verbatim>\<open>POST /api/items\<close> request carries, a valid bearer token
  included, the stored items are afterwards the same or extended by one item that has no
  owner: the route has no token verification, so \<^verbatim>\<open>req.user\<close> is absent when the
  handler reads it.
\<close>

theorem created_item_has_no_owner:
  assumes "req_method req = POST" "req_path req = [''items'']"
  shows "items (snd (app env s req)) = items s \<or>
         (\<exists>d. user d = None \<and> items (snd (app env s req)) = items s @ [d])"
  using assms by (auto simp: app_post_item created_item_def)

theorem created_item_has_no_owner_witness:
  "req_method padded_create = POST \<and> req_path padded_create = [''items''] \<and>
   req_authorization padded_create = Some ''Bearer good'' \<and>
   jwt_verify sample_env ''good'' (jwt_secret sample_env) =
      Inr \<lparr>sub_id = ''64b7f0c2a1d3e4f5a6b7c8aa'', sub_username = ''ann'', sub_role = ''user''\<rparr> \<and>
   items (snd (app sample_env sample_store padded_create)) \<noteq> items sample_store \<and>
   (\<exists>d. user d = None \<and>
        items (snd (app sample_env sample_store padded_create)) = items sample_store @ [d])"
proof -
  have p: "req_method padded_create = POST" "req_path padded_create = [''items'']"
    by (simp_all add: padded_create_def sample_request_def)
  have t: "trim '' T'' = ''T''" "trim ''C'' = ''C''"
    by (simp_all add: trim_def is_space_def)
  have n: "items (snd (app sample_env sample_store padded_create)) \<noteq> items sample_store"
    unfolding app_post_item[OF p] using t
    by (simp add: create_errors_def sample_env_def sample_store_def sample_item_def toString_def
        padded_create_def sample_request_def)
  show ?thesis
    using p n created_item_has_no_owner[OF p, of sample_env sample_store]
    by (simp add: padded_create_def sample_request_def sample_env_def)
qed

section \<open>Updating an item\<close>

lemma update_first_absent: "find P xs = None \<Longrightarrow> update_first P f xs = xs"
  by (induction xs) (auto split: if_splits)

lemma apply_updates_none: "apply_updates env None None = (\<lambda>d. d\<lparr>updatedAt := now env\<rparr>)"
  by (rule ext) (simp add: apply_updates_def)

text \<open>
  What the application answers to \<^verbatim>\<open>PUT /api/items/:id\<close> when the body has neither
  field, the identifier is an ObjectId and the database answers.
\<close>

lemma app_put_item_empty:
  assumes "req_method req = PUT" "req_path req = [''items'', i]"
    and "req_body req ''title'' = None" "req_body req ''content'' = None"
    and "isMongoId i" "db_fault env = None"
  shows "app env s req =
     (case find (\<lambda>d. item_id d = i) (items s) of
        None \<Rightarrow> (Some (errorHandler (production env)
                   (ApiError 404 (''Item with ID '' @ i @ '' not found'') ''ITEM_NOT_FOUND'')), s)
      | Some d \<Rightarrow>
         (Some \<lparr>res_status = 200,
                 res_body = JObj [(''success'', JBool True),
                                  (''message'', JStr ''Item updated successfully''),
                                  (''item'', item_json (d\<lparr>updatedAt := now env\<rparr>))]\<rparr>,
          s\<lparr>items := update_first (\<lambda>d. item_id d = i) (\<lambda>d. d\<lparr>updatedAt := now env\<rparr>) (items s)\<rparr>))"
  using assms
  by (simp add: app_def routes_def incoming_def itemRoutes_def put_item_def chain_defs
      Item_findByIdAndUpdate_def toString_def truthy_def apply_updates_none
      update_first_absent split: option.splits)

text \<open>
  Claim C10. For an item \<open>d\<close> stored under the identifier \<open>i\<close>, a
  \<^verbatim>\<open>PUT /api/items/:id\<close> request whose body has neither a title nor a content is
  answered with status 200, and the item stored under \<open>i\<close> afterwards has the title,
  the content and the owner of \<open>d\<close> (its update timestamp alone is renewed). The
  identifier is an ObjectId, as every stored identifier is, and the database answers.
\<close>

theorem empty_update_keeps_item:
  assumes "req_method req = PUT" "req_path req = [''items'', i]"
    and "req_body req ''title'' = None" "req_body req ''content'' = None"
    and "isMongoId i" "db_fault env = None"
    and "find (\<lambda>x. item_id x = i) (items s) = Some d"
  shows "\<exists>d'. fst (app env s req) =
                Some \<lparr>res_status = 200,
                       res_body = JObj [(''success'', JBool True),
                                        (''message'', JStr ''Item updated successfully''),
                                        (''item'', item_json d')]\<rparr> \<and>
              find (\<lambda>x. item_id x = i) (items (snd (app env s req))) = Some d' \<and>
              title d' = title d \<and> content d' = content d \<and> user d' = user d"
  using assms(7) by (simp add: app_put_item_empty[OF assms(1-6)] find_update_first)

lemma sample_item_oid: "isMongoId ''64b7f0c2a1d3e4f5a6b7c800''"
  by (simp add: isMongoId_def is_hex_digit_def)

theorem empty_update_keeps_item_witness:
  "req_method empty_update = PUT \<and> req_path empty_update = [''items'', ''64b7f0c2a1d3e4f5a6b7c800''] \<and>
   req_body empty_update ''title'' = None \<and> req_body empty_update ''content'' = None \<and>
   isMongoId ''64b7f0c2a1d3e4f5a6b7c800'' \<and> db_fault sample_env = None \<and>
   find (\<lambda>x. item_id x = ''64b7f0c2a1d3e4f5a6b7c800'') (items sample_store) = Some sample_item \<and>
   (\<exists>d'. fst (app sample_env sample_store empty_update) =
                Some \<lparr>res_status = 200,
                       res_body = JObj [(''success'', JBool True),
                                        (''message'', JStr ''Item updated successfully''),
                                        (''item'', item_json d')]\<rparr> \<and>
          find (\<lambda>x. item_id x = ''64b7f0c2a1d3e4f5a6b7c800'')
            (items (snd (app sample_env sample_store empty_update))) = Some d' \<and>
          title d' = ''first'' \<and> content d' = ''text'' \<and> user d' = Some ''64b7f0c2a1d3e4f5a6b7c8aa'')"
proof -
  have h: "req_method empty_update = PUT" "req_path empty_update = [''items'', ''64b7f0c2a1d3e4f5a6b7c800'']"
    "req_body empty_update ''title'' = None" "req_body empty_update ''content'' = None"
    by (simp_all add: empty_update_def sample_request_def)
  have e: "db_fault sample_env = None" by (simp add: sample_env_def)
  have f: "find (\<lambda>x. item_id x = ''64b7f0c2a1d3e4f5a6b7c800'') (items sample_store) = Some sample_item"
    by (simp add: sample_store_def sample_item_def)
  show ?thesis
    using h e f sample_item_oid empty_update_keeps_item[OF h sample_item_oid e f]
    by (simp add: sample_item_def)
qed

section \<open>Authentication\<close>

lemma split_on_absent: "c \<notin> set xs \<Longrightarrow> split_on c xs = [xs]"
  by (induction xs) auto

text \<open>
  Claim C3. A request to the protected route \<^verbatim>\<open>GET /api/auth/me\<close> carries the
  header \<^verbatim>\<open>Bearer <token>\<close>, and \<^verbatim>\<open>jwt.verify\<close> throws an error named
  \<open>name\<close> on the token. When the name is \<^verbatim>\<open>TokenExpiredError\<close>, which is what
  the library throws for a token signed with the right secret whose expiry has passed,
  the response is 401 with code \<^verbatim>\<open>TOKEN_EXPIRED\<close>; for every other name it is 401
  with code \<^verbatim>\<open>INVALID_TOKEN\<close>.
\<close>

theorem expired_token_rejected:
  assumes "req_method req = GET" "req_path req = [''auth'', ''me'']"
    and "req_authorization req = Some (''Bearer '' @ token)" "CHR '' '' \<notin> set token"
    and "jwt_verify env token (jwt_secret env) = Inl name"
  shows "app env s req =
     (Some \<lparr>res_status = 401,
             res_body = JObj [(''success'', JBool False),
                              (''error'',
                                 JObj [(''message'', JStr (if name = ''TokenExpiredError''
                                                          then ''Token has expired'' else ''Invalid token'')),
                                       (''code'', JStr (if name = ''TokenExpiredError''
                                                       then ''TOKEN_EXPIRED'' else ''INVALID_TOKEN''))])]\<rparr>, s)"
  using assms
  by (simp add: app_def routes_def incoming_def authRoutes_def me_def authenticateJWT_def
      truthy_def toString_def split_on_absent errorHandler_def)

theorem expired_token_rejected_witness:
  "req_method (me_with ''old'') = GET \<and> req_path (me_with ''old'') = [''auth'', ''me''] \<and>
   req_authorization (me_with ''old'') = Some (''Bearer '' @ ''old'') \<and> CHR '' '' \<notin> set ''old'' \<and>
   jwt_verify sample_env ''old'' (jwt_secret sample_env) = Inl ''TokenExpiredError'' \<and>
   app sample_env sample_store (me_with ''old'') =
     (Some \<lparr>res_status = 401,
             res_body = JObj [(''success'', JBool False),
                              (''error'', JObj [(''message'', JStr ''Token has expired''),
                                                (''code'', JStr ''TOKEN_EXPIRED'')])]\<rparr>, sample_store)"
proof -
  have h: "req_method (me_with ''old'') = GET" "req_path (me_with ''old'') = [''auth'', ''me'']"
    "req_authorization (me_with ''old'') = Some (''Bearer '' @ ''old'')" "CHR '' '' \<notin> set ''old''"
    "jwt_verify sample_env ''old'' (jwt_secret sample_env) = Inl ''TokenExpiredError''"
    by (simp_all add: me_with_def sample_request_def sample_env_def)
  show ?thesis
    using h expired_token_rejected[OF h, of sample_store] by simp
qed











section \<open>Searching\<close>

text \<open>
  The route \<^verbatim>\<open>/search\<close> taken alone: with \<^verbatim>\<open>page=2\<close>, \<^verbatim>\<open>limit=10\<close>
  and no text query it returns the items 11 to 20 of the newest-first order, with
  \<^verbatim>\<open>hasPrevPage\<close> true and \<^verbatim>\<open>hasNextPage\<close> true exactly when there are more
  than 20 items.
\<close>

lemma parse_2: "parseInt (Some ''2'') = Some 2"
  by (simp add: parseInt_def is_space_def is_digit_def digit_val_def digits_val_def)

lemma parse_10: "parseInt (Some ''10'') = Some 10"
  by (simp add: parseInt_def is_space_def is_digit_def digit_val_def digits_val_def)

lemma page_ok: "isInt (Some 1) None ''2''"
  by (simp add: isInt_def parse_2 is_digit_def digit_val_def)

lemma limit_ok: "isInt (Some 1) (Some 50) ''10''"
  by (simp add: isInt_def parse_10 is_digit_def digit_val_def)

lemma ceil_div_10: "2 < ceil_div (int n) 10 \<longleftrightarrow> 20 < n"
  unfolding ceil_div_def by presburger

lemma search_items_page2:
  assumes "req_query req ''page'' = Some ''2''" "req_query req ''limit'' = Some ''10''"
    and "req_query req ''q'' = None" "req_errors req = []" "db_fault env = None"
  shows "search_items env s req =
     (Responded
        \<lparr>res_status = 200,
         res_body =
           JObj [(''success'', JBool True),
                 (''results'', JArr (map item_json (take 10 (drop 10 (newest_first (items s)))))),
                 (''pagination'',
                    JObj [(''total'', JNum (int (length (items s)))),
                          (''page'', JNum 2),
                          (''limit'', JNum 10),
                          (''pages'', JNum (ceil_div (int (length (items s))) 10)),
                          (''hasNextPage'', JBool (20 < length (items s))),
                          (''hasPrevPage'', JBool True)])]\<rparr>, s)"
  using assms
  by (simp add: search_items_def chain_defs search_handler_def parse_2 parse_10 int_or_def
      page_ok limit_ok toString_def truthy_def Item_find_def Item_countDocuments_def
      ceil_div_10 Let_def)

text \<open>
  Claim C1 says that \<^verbatim>\<open>GET /api/items/search?page=2&limit=10\<close> lists the items 11
  to 20 with the pagination data. The router registers \<^verbatim>\<open>GET /:id\<close> before
  \<^verbatim>\<open>GET /search\<close>, so the request is taken by the former with
  \<^verbatim>\<open>id = "search"\<close>, which is no ObjectId: for every store and environment the
  answer is the validation failure on the field \<^verbatim>\<open>id\<close>, and the search handler is
  never reached.
\<close>

theorem search_request_taken_by_id_route:
  "app env s search_page2 = (Some (validation_failed [(''id'', ''Invalid item ID'')]), s)"
  by (simp add: app_def routes_def incoming_def search_page2_def itemRoutes_def get_item_def
      validated_def check_def validateRequest_def field_of_def put_field_def is_optional_def
      must_def toString_def isMongoId_def)

section \<open>The shape of error responses\<close>



section \<open>Who writes an error response\<close>



















end
